theory Spec2Isabelle
  imports Complex_Main "HOL-Library.Word"
begin

section \<open>Data model of \<open>VoiceComparison.tsx\<close>\<close>

text \<open>
  A JavaScript string is a sequence of UTF-16 code units. A reading of the wall clock
  (\<open>Date.now()\<close>) is the number of milliseconds elapsed since the epoch, a \<open>nat\<close>;
  the marker of the last speech and \<open>lastUpdate\<close> hold such readings or their initial
  0. A latency is a difference of two readings, computed in \<open>int\<close>.
\<close>

type_synonym jsstring = "16 word list"

text \<open>Writing an ASCII literal as a JavaScript string.\<close>

definition utf16 :: "string \<Rightarrow> jsstring" where
  "utf16 s = map (\<lambda>c. of_nat (of_char c)) s"

text \<open>
  The three object types of the source. \<open>text\<close> is a reserved word of the theory
  language, so the \<open>text\<close> field of an event is \<open>event_text\<close>, and the two fields of a
  segment carry the prefix \<open>seg_\<close> to keep them apart from the fields of the same name
  in the other two types. The \<open>type\<close> tag of an event is the constructor of \<open>message\<close>
  below.
\<close>

record TranscriptionEvent =
  provider :: jsstring
  event_text :: jsstring
  is_final :: bool
  timestamp :: real
  latency_ms :: real

record TranscriptSegment =
  seg_text :: jsstring
  seg_latency :: int

record ProviderState =
  segments :: "TranscriptSegment list"
  partialText :: jsstring
  latency :: int
  lastUpdate :: nat

text \<open>
  \<open>Record<string, ProviderState>\<close>: the plain object used as a dictionary from
  provider identifier to provider state. The map holds its own properties; what a read
  \<open>obj[p]\<close> gives beyond them is \<open>get_property\<close> below.
\<close>

type_synonym States = "jsstring \<rightharpoonup> ProviderState"

text \<open>The messages \<open>ws.onmessage\<close> tells apart by \<open>data.type\<close>; any other tag is ignored.\<close>

datatype message =
    Transcription TranscriptionEvent
  | Config "jsstring list"
  | Error jsstring
  | Other

text \<open>
  The state of the component the claims are about: the two \<open>useState\<close> cells
  \<open>states\<close> and \<open>error\<close> and the ref \<open>lastSpeechTimeRef\<close>.
\<close>

record Component =
  states :: States
  error :: "jsstring option"
  lastSpeechTimeRef :: nat

definition initial :: Component where
  "initial = \<lparr>states = Map.empty, error = None, lastSpeechTimeRef = 0\<rparr>"


section \<open>The transcript reducer\<close>

text \<open>
  \<open>String.prototype.trim\<close> removes the white space and line terminators of ECMAScript
  from both ends: TAB, LF, VT, FF, CR, SP, NBSP, U+1680, U+2000 to U+200A, U+2028,
  U+2029, U+202F, U+205F, U+3000 and U+FEFF.
\<close>

definition is_white :: "16 word \<Rightarrow> bool" where
  "is_white c \<longleftrightarrow>
     c = 0x9 \<or> c = 0xA \<or> c = 0xB \<or> c = 0xC \<or> c = 0xD \<or> c = 0x20 \<or> c = 0xA0 \<or>
     c = 0x1680 \<or> (0x2000 \<le> c \<and> c \<le> 0x200A) \<or> c = 0x2028 \<or> c = 0x2029 \<or>
     c = 0x202F \<or> c = 0x205F \<or> c = 0x3000 \<or> c = 0xFEFF"

definition trim :: "jsstring \<Rightarrow> jsstring" where
  "trim s = rev (dropWhile is_white (rev (dropWhile is_white s)))"

text \<open>The default state, written out twice in the source (lines 64 and 89).\<close>

definition fresh :: ProviderState where
  "fresh = \<lparr>segments = [], partialText = [], latency = 0, lastUpdate = 0\<rparr>"

text \<open>
  Reading a property of the states object. The object is created by an object literal
  or a spread, so its prototype is \<open>Object.prototype\<close>: a name that is not an own
  property is looked up there. The names \<open>Object.prototype\<close> defines are those of
  ECMAScript (with its Annex B); their values are functions or, for \<open>__proto__\<close>,
  \<open>Object.prototype\<close> itself: truthy values that are no \<open>ProviderState\<close> and have
  no property \<open>segments\<close>.
\<close>

definition Object_prototype_names :: "jsstring list" where
  "Object_prototype_names =
     map utf16
       [''constructor'', ''__defineGetter__'', ''__defineSetter__'', ''hasOwnProperty'',
        ''__lookupGetter__'', ''__lookupSetter__'', ''isPrototypeOf'',
        ''propertyIsEnumerable'', ''toString'', ''valueOf'', ''__proto__'',
        ''toLocaleString'']"

datatype jsvalue = State ProviderState | Inherited | Undefined

definition get_property :: "States \<Rightarrow> jsstring \<Rightarrow> jsvalue" where
  "get_property obj p =
     (case obj p of
        Some st \<Rightarrow> State st
      | None \<Rightarrow> if p \<in> set Object_prototype_names then Inherited else Undefined)"

fun truthy :: "jsvalue \<Rightarrow> bool" where
  "truthy (State st) = True"
| "truthy Inherited = True"
| "truthy Undefined = False"

text \<open>Line 89: \<open>prev[provider] || { ... }\<close>.\<close>

definition current :: "States \<Rightarrow> jsstring \<Rightarrow> jsvalue" where
  "current prev p =
     (let v = get_property prev p in if truthy v then v else State fresh)"

text \<open>
  The updater that \<open>handleTranscription\<close> hands to \<open>setStates\<close> (lines 87 to 117).
  \<open>now\<close> is the reading of \<open>Date.now()\<close> taken when the event arrived and
  \<open>lastSpeechTime\<close> the value of \<open>lastSpeechTimeRef.current\<close> when the updater runs.
  A non-empty string is truthy, so \<open>event.text.trim()\<close> is the test \<open>trim \<dots> \<noteq> []\<close>.
  Line 91 spreads \<open>current.segments\<close>: on a value that is not a provider state the
  property is \<open>undefined\<close>, which is not iterable, and the spread throws a
  \<open>TypeError\<close> (as reading a property of \<open>undefined\<close> would).
\<close>

datatype exn = TypeError

definition handleTranscription ::
  "nat \<Rightarrow> nat \<Rightarrow> States \<Rightarrow> TranscriptionEvent \<Rightarrow> exn + States" where
  "handleTranscription now lastSpeechTime prev event =
     (case current prev (provider event) of
        Inherited \<Rightarrow> Inl TypeError
      | Undefined \<Rightarrow> Inl TypeError
      | State cur \<Rightarrow>
          (let newSegments = segments cur;
               newPartial = event_text event;
               latency0 = latency cur;
               (newSegments, newPartial, latency1) =
                 (if is_final event then
                    (let (newSegments, latency1) =
                           (if trim (event_text event) \<noteq> [] then
                              (let timeSinceSpeech = max 0 (int now - int lastSpeechTime)
                               in (newSegments @
                                     [\<lparr>seg_text = event_text event,
                                       seg_latency = timeSinceSpeech\<rparr>],
                                   timeSinceSpeech))
                            else (newSegments, latency0))
                     in (newSegments, [], latency1))
                  else (newSegments, newPartial, latency0))
           in Inr (prev(provider event \<mapsto>
                \<lparr>segments = newSegments, partialText = newPartial,
                 latency = latency1, lastUpdate = now\<rparr>))))"

text \<open>
  The \<open>config\<close> branch (lines 60 to 68): \<open>forEach\<close> over the announced providers,
  with the test \<open>!next[p]\<close>.
\<close>

fun register :: "States \<Rightarrow> jsstring list \<Rightarrow> States" where
  "register next [] = next"
| "register next (p # ps) =
     register (if \<not> truthy (get_property next p) then next(p \<mapsto> fresh) else next) ps"

text \<open>
  \<open>ws.onmessage\<close> (lines 54 to 75) on a message that parsed, the updater of a
  transcription being run before the next callback. An updater that throws returns no
  state, and none is stored.
\<close>

fun onmessage :: "nat \<Rightarrow> Component \<Rightarrow> message \<Rightarrow> Component" where
  "onmessage now c (Transcription event) =
     (case handleTranscription now (lastSpeechTimeRef c) (states c) event of
        Inr next \<Rightarrow> c\<lparr>states := next\<rparr>
      | Inl e \<Rightarrow> c)"
| "onmessage now c (Config providers) = c\<lparr>states := register (states c) providers\<rparr>"
| "onmessage now c (Error m) = c\<lparr>error := Some m\<rparr>"
| "onmessage now c Other = c"


section \<open>The audio path\<close>

text \<open>
  A JavaScript number as far as the audio path needs it: the samples the worklet posts
  are the elements of a \<open>Float32Array\<close>, so a sample is a finite value, an infinity
  or NaN. Every finite \<open>Float32\<close> value has a significand of 24 bits, so its products
  with \<open>0x8000\<close> and \<open>0x7FFF\<close> are exact in double precision and the arithmetic on
  \<open>real\<close> below is the arithmetic of the program.
\<close>

datatype number = Num real | PInf | NInf | NaN

fun Math_min :: "number \<Rightarrow> number \<Rightarrow> number" where
  "Math_min NaN y = NaN"
| "Math_min x NaN = NaN"
| "Math_min NInf y = NInf"
| "Math_min x NInf = NInf"
| "Math_min PInf y = y"
| "Math_min x PInf = x"
| "Math_min (Num a) (Num b) = Num (min a b)"

fun Math_max :: "number \<Rightarrow> number \<Rightarrow> number" where
  "Math_max NaN y = NaN"
| "Math_max x NaN = NaN"
| "Math_max PInf y = PInf"
| "Math_max x PInf = PInf"
| "Math_max NInf y = y"
| "Math_max x NInf = x"
| "Math_max (Num a) (Num b) = Num (max a b)"

text \<open>\<open>x < y\<close> on numbers: false as soon as one side is NaN.\<close>

fun lt :: "number \<Rightarrow> number \<Rightarrow> bool" where
  "lt NaN y = False"
| "lt x NaN = False"
| "lt (Num a) (Num b) = (a < b)"
| "lt NInf NInf = False"
| "lt NInf y = True"
| "lt x NInf = False"
| "lt PInf y = False"
| "lt x PInf = True"

text \<open>The product of a number and a positive finite constant, the only products here.\<close>

fun scale :: "number \<Rightarrow> real \<Rightarrow> number" where
  "scale (Num a) k = Num (a * k)"
| "scale PInf k = PInf"
| "scale NInf k = NInf"
| "scale NaN k = NaN"

text \<open>
  Storing a number in an element of an \<open>Int16Array\<close> (ECMAScript's ToInt16): NaN and
  the infinities become 0, a finite value is truncated towards zero and reduced modulo
  \<open>2 ^ 16\<close>. Reading the element back gives \<open>sint\<close> of the stored word.
\<close>

definition truncate :: "real \<Rightarrow> int" where
  "truncate x = (if x < 0 then \<lceil>x\<rceil> else \<lfloor>x\<rfloor>)"

fun ToInt16 :: "number \<Rightarrow> 16 word" where
  "ToInt16 (Num x) = word_of_int (truncate x)"
| "ToInt16 PInf = 0"
| "ToInt16 NInf = 0"
| "ToInt16 NaN = 0"

text \<open>Lines 157 and 158: one sample, clamped, scaled and stored.\<close>

definition encode :: "number \<Rightarrow> 16 word" where
  "encode x =
     (let s = Math_max (Num (- 1)) (Math_min (Num 1) x)
      in ToInt16 (if lt s (Num 0) then scale s 0x8000 else scale s 0x7FFF))"

text \<open>
  The loop of lines 156 to 162, from index \<open>i\<close>, on the array being filled and the
  running maximum.
\<close>

function worklet_loop ::
  "number list \<Rightarrow> nat \<Rightarrow> 16 word list \<Rightarrow> int \<Rightarrow> 16 word list \<times> int" where
  "worklet_loop float32Array i int16Array maxAmp =
     (if i < length float32Array then
        (let int16Array' = int16Array[i := encode (float32Array ! i)];
             absVal = \<bar>sint (int16Array' ! i)\<bar>
         in worklet_loop float32Array (Suc i) int16Array'
              (if absVal > maxAmp then absVal else maxAmp))
      else (int16Array, maxAmp))"
  by pat_completeness auto
termination
  by (relation "measure (\<lambda>(float32Array, i, int16Array, maxAmp). length float32Array - i)")
     auto

declare worklet_loop.simps [simp del]

text \<open>
  \<open>worklet.port.onmessage\<close> (lines 149 to 176): \<open>now\<close> is what \<open>Date.now()\<close> reads
  during the call. The second component is the frame handed to the socket.
\<close>

definition worklet_onmessage ::
  "nat \<Rightarrow> Component \<Rightarrow> number list \<Rightarrow> Component \<times> 16 word list" where
  "worklet_onmessage now c float32Array =
     (let (int16Array, maxAmp) =
            worklet_loop float32Array 0 (replicate (length float32Array) 0) 0
      in (if maxAmp > 500 then c\<lparr>lastSpeechTimeRef := now\<rparr> else c, int16Array))"


section \<open>The event loop\<close>

text \<open>
  The callbacks run one at a time, in the order of arrival. An input is an audio block
  from the worklet or a parsed message from the socket, paired with the clock reading
  of its callback; \<open>trace\<close> lists the states the component goes through and
  \<open>run\<close> gives the last of them.
\<close>

datatype input = Block "number list" | Message message

fun step :: "nat \<Rightarrow> Component \<Rightarrow> input \<Rightarrow> Component" where
  "step now c (Block float32Array) = fst (worklet_onmessage now c float32Array)"
| "step now c (Message m) = onmessage now c m"

fun trace :: "Component \<Rightarrow> (nat \<times> input) list \<Rightarrow> Component list" where
  "trace c [] = [c]"
| "trace c ((now, i) # rest) = c # trace (step now c i) rest"

fun run :: "Component \<Rightarrow> (nat \<times> input) list \<Rightarrow> Component" where
  "run c [] = c"
| "run c ((now, i) # rest) = run (step now c i) rest"


section \<open>The reducer: properties\<close>

lemma handleTranscription_ok:
  assumes "get_property prev (provider event) \<noteq> Inherited"
  shows "handleTranscription now t prev event =
     Inr (prev(provider event \<mapsto>
       \<lparr>segments =
          (if is_final event \<and> trim (event_text event) \<noteq> []
           then segments (case prev (provider event) of Some st \<Rightarrow> st | None \<Rightarrow> fresh) @
                  [\<lparr>seg_text = event_text event, seg_latency = max 0 (int now - int t)\<rparr>]
           else segments (case prev (provider event) of Some st \<Rightarrow> st | None \<Rightarrow> fresh)),
        partialText = (if is_final event then [] else event_text event),
        latency =
          (if is_final event \<and> trim (event_text event) \<noteq> []
           then max 0 (int now - int t)
           else latency (case prev (provider event) of Some st \<Rightarrow> st | None \<Rightarrow> fresh)),
        lastUpdate = now\<rparr>))"
  using assms
  by (auto simp: handleTranscription_def current_def get_property_def Let_def
           split: option.splits if_splits)

lemma handleTranscription_throws:
  "get_property prev (provider event) = Inherited \<Longrightarrow>
   handleTranscription now t prev event = Inl TypeError"
  by (simp add: handleTranscription_def current_def)

lemma handleTranscription_other:
  "handleTranscription now t prev event = Inr next \<Longrightarrow> p \<noteq> provider event \<Longrightarrow>
   next p = prev p"
  by (cases "get_property prev (provider event) = Inherited")
     (auto simp: handleTranscription_throws handleTranscription_ok)

lemma register_lookup:
  "register s ps p =
     (case s p of
        Some v \<Rightarrow> Some v
      | None \<Rightarrow>
          if p \<in> set ps \<and> p \<notin> set Object_prototype_names then Some fresh else None)"
  by (induction ps arbitrary: s) (auto simp: get_property_def split: option.splits)

lemma register_idem: "register (register s ps) ps = register s ps"
  by (rule ext) (simp add: register_lookup split: option.splits)

lemma inherited_names:
  "utf16 ''constructor'' \<in> set Object_prototype_names"
  "utf16 ''toString'' \<in> set Object_prototype_names"
  "utf16 ''__proto__'' \<in> set Object_prototype_names"
  by (simp_all add: Object_prototype_names_def)

lemma ordinary_names:
  "utf16 ''A'' \<notin> set Object_prototype_names"
  "utf16 ''deepgram'' \<notin> set Object_prototype_names"
  by (simp_all add: Object_prototype_names_def utf16_def)

lemma trim_blank: "trim (utf16 ''   '') = []"
  by (simp add: trim_def utf16_def is_white_def)

lemma trim_hello: "trim (utf16 ''hello'') \<noteq> []"
  by (simp add: trim_def utf16_def is_white_def)

lemma trim_hi: "trim (utf16 ''hi'') \<noteq> []"
  by (simp add: trim_def utf16_def is_white_def)

text \<open>
  What the updater does for a provider whose name does not reach an inherited
  property, that is for every stored provider and every name \<open>Object.prototype\<close> does
  not define: it returns the states with that provider's entry replaced. A final
  transcription with a text that is not blank appends one segment of the latency
  \<open>max 0 (now - marker)\<close> to the stored (or default) segments and records that
  latency, a final one with a blank text keeps segments and latency, both empty the
  partial text; one that is not final stores its text as the partial text and keeps
  segments and latency; all set the last update to \<open>now\<close>.
\<close>

lemma transcription_on_ordinary_name:
  assumes "prev (provider event) \<noteq> None \<or> provider event \<notin> set Object_prototype_names"
  shows "handleTranscription now marker prev event =
     Inr (prev(provider event \<mapsto>
       \<lparr>segments =
          (if is_final event \<and> trim (event_text event) \<noteq> []
           then segments (case prev (provider event) of Some st \<Rightarrow> st | None \<Rightarrow> fresh) @
                  [\<lparr>seg_text = event_text event,
                    seg_latency = max 0 (int now - int marker)\<rparr>]
           else segments (case prev (provider event) of Some st \<Rightarrow> st | None \<Rightarrow> fresh)),
        partialText = (if is_final event then [] else event_text event),
        latency =
          (if is_final event \<and> trim (event_text event) \<noteq> []
           then max 0 (int now - int marker)
           else latency (case prev (provider event) of Some st \<Rightarrow> st | None \<Rightarrow> fresh)),
        lastUpdate = now\<rparr>))"
  using assms
  by (intro handleTranscription_ok) (auto simp: get_property_def split: option.splits)

text \<open>
  The example of the specification: the partial text \<open>hel\<close>, then the final \<open>hello\<close>
  250 ms after the marker.
\<close>

lemma transcription_on_ordinary_name_example:
  "handleTranscription 1250 1000
     [utf16 ''A'' \<mapsto> \<lparr>segments = [], partialText = utf16 ''hel'',
                       latency = 0, lastUpdate = 900\<rparr>]
     \<lparr>provider = utf16 ''A'', event_text = utf16 ''hello'', is_final = True,
      timestamp = 0, latency_ms = 0\<rparr> =
     Inr [utf16 ''A'' \<mapsto>
            \<lparr>segments = [\<lparr>seg_text = utf16 ''hello'', seg_latency = 250\<rparr>],
             partialText = [], latency = 250, lastUpdate = 1250\<rparr>]"
  by (simp add: transcription_on_ordinary_name trim_hello)

text \<open>
  C1. The specification gives the new segment for every final transcription with a text
  that is not blank, also for a provider without a stored state. On the freshly mounted
  component a final \<open>hello\<close> for the provider \<open>constructor\<close> is such an event, and
  the updater throws: no segment is appended and no state is created.
\<close>

theorem final_nonempty_on_inherited_name_throws:
  "is_final \<lparr>provider = utf16 ''constructor'', event_text = utf16 ''hello'',
             is_final = True, timestamp = 0, latency_ms = 0\<rparr> \<and>
   trim (utf16 ''hello'') \<noteq> [] \<and>
   handleTranscription 1250 1000 Map.empty
     \<lparr>provider = utf16 ''constructor'', event_text = utf16 ''hello'',
      is_final = True, timestamp = 0, latency_ms = 0\<rparr> = Inl TypeError \<and>
   states (onmessage 1250 initial
     (Transcription \<lparr>provider = utf16 ''constructor'', event_text = utf16 ''hello'',
                     is_final = True, timestamp = 0, latency_ms = 0\<rparr>)) = Map.empty"
  by (simp add: trim_hello handleTranscription_throws get_property_def inherited_names
        initial_def)

text \<open>
  C2. The specification gives an emptied partial text for every final transcription
  with a blank text. For the provider \<open>toString\<close> the updater throws before it looks at the
  event: no state with an empty partial text is stored.
\<close>

theorem final_blank_on_inherited_name_throws:
  "is_final \<lparr>provider = utf16 ''toString'', event_text = utf16 ''   '',
             is_final = True, timestamp = 0, latency_ms = 0\<rparr> \<and>
   trim (utf16 ''   '') = [] \<and>
   handleTranscription 1250 1000 Map.empty
     \<lparr>provider = utf16 ''toString'', event_text = utf16 ''   '',
      is_final = True, timestamp = 0, latency_ms = 0\<rparr> = Inl TypeError \<and>
   states (onmessage 1250 initial
     (Transcription \<lparr>provider = utf16 ''toString'', event_text = utf16 ''   '',
                     is_final = True, timestamp = 0, latency_ms = 0\<rparr>)) = Map.empty"
  by (simp add: trim_blank handleTranscription_throws get_property_def inherited_names
        initial_def)

text \<open>
  C3. The specification gives the replaced partial text and the last update \<open>now\<close>
  for every transcription that is not final. For the provider \<open>__proto__\<close> the updater throws:
  neither is stored.
\<close>

theorem partial_on_inherited_name_throws:
  "\<not> is_final \<lparr>provider = utf16 ''__proto__'', event_text = utf16 ''hi'',
               is_final = False, timestamp = 0, latency_ms = 0\<rparr> \<and>
   handleTranscription 1250 1000 Map.empty
     \<lparr>provider = utf16 ''__proto__'', event_text = utf16 ''hi'',
      is_final = False, timestamp = 0, latency_ms = 0\<rparr> = Inl TypeError \<and>
   states (onmessage 1250 initial
     (Transcription \<lparr>provider = utf16 ''__proto__'', event_text = utf16 ''hi'',
                     is_final = False, timestamp = 0, latency_ms = 0\<rparr>)) = Map.empty"
  by (simp add: handleTranscription_throws get_property_def inherited_names initial_def)

text \<open>
  What a \<open>config\<close> message does: a provider that had a state keeps it, a provider that
  had none gets the default state if the message names it and \<open>Object.prototype\<close> does
  not define its name, and none otherwise; the same message once more changes nothing.
\<close>

lemma config_registers_ordinary_names:
  "states (onmessage now c (Config providers)) p =
     (case states c p of
        Some st \<Rightarrow> Some st
      | None \<Rightarrow>
          if p \<in> set providers \<and> p \<notin> set Object_prototype_names
          then Some \<lparr>segments = [], partialText = [], latency = 0, lastUpdate = 0\<rparr>
          else None) \<and>
   onmessage now' (onmessage now c (Config providers)) (Config providers) =
     onmessage now c (Config providers)"
  by (simp add: register_lookup register_idem fresh_def split: option.split)

text \<open>
  C4. The specification gives a fresh state for every provider the message names that
  has none. A message that names \<open>constructor\<close> and \<open>deepgram\<close> on the freshly mounted
  component registers \<open>deepgram\<close> and leaves \<open>constructor\<close> without a state.
\<close>

theorem config_skips_inherited_name:
  "states initial (utf16 ''constructor'') = None \<and>
   states (onmessage 5 initial (Config [utf16 ''constructor'', utf16 ''deepgram'']))
     (utf16 ''constructor'') = None \<and>
   states (onmessage 5 initial (Config [utf16 ''constructor'', utf16 ''deepgram'']))
     (utf16 ''deepgram'') =
     Some \<lparr>segments = [], partialText = [], latency = 0, lastUpdate = 0\<rparr>"
  by (simp add: register_lookup inherited_names ordinary_names fresh_def initial_def
        del: register.simps)

text \<open>
  C5. A transcription for one provider leaves the entry of every other provider as it
  was, whether that provider had an entry or not; as a message to the component it
  changes nothing but the provider states.
\<close>

theorem transcription_touches_one_provider:
  assumes "p \<noteq> provider event"
  shows "(\<forall>next. handleTranscription now marker prev event = Inr next \<longrightarrow> next p = prev p) \<and>
         states (onmessage now c (Transcription event)) p = states c p \<and>
         error (onmessage now c (Transcription event)) = error c \<and>
         lastSpeechTimeRef (onmessage now c (Transcription event)) = lastSpeechTimeRef c"
  using assms by (auto simp: handleTranscription_other split: sum.splits)

text \<open>The theorem at an event for \<open>A\<close> in a state that holds \<open>B\<close>.\<close>

theorem transcription_touches_one_provider_witness:
  "utf16 ''B'' \<noteq> utf16 ''A'' \<and>
   (case handleTranscription 1250 1000
           [utf16 ''B'' \<mapsto> \<lparr>segments = [\<lparr>seg_text = utf16 ''yo'', seg_latency = 7\<rparr>],
                             partialText = utf16 ''hel'', latency = 7, lastUpdate = 900\<rparr>]
           \<lparr>provider = utf16 ''A'', event_text = utf16 ''hi'', is_final = True,
            timestamp = 0, latency_ms = 0\<rparr>
    of Inr next \<Rightarrow> next (utf16 ''B'') | Inl e \<Rightarrow> None) =
     Some \<lparr>segments = [\<lparr>seg_text = utf16 ''yo'', seg_latency = 7\<rparr>],
           partialText = utf16 ''hel'', latency = 7, lastUpdate = 900\<rparr> \<and>
   (case handleTranscription 1250 1000
           [utf16 ''B'' \<mapsto> \<lparr>segments = [\<lparr>seg_text = utf16 ''yo'', seg_latency = 7\<rparr>],
                             partialText = utf16 ''hel'', latency = 7, lastUpdate = 900\<rparr>]
           \<lparr>provider = utf16 ''A'', event_text = utf16 ''hi'', is_final = True,
            timestamp = 0, latency_ms = 0\<rparr>
    of Inr next \<Rightarrow> next (utf16 ''A'') | Inl e \<Rightarrow> None) =
     Some \<lparr>segments = [\<lparr>seg_text = utf16 ''hi'', seg_latency = 250\<rparr>],
           partialText = [], latency = 250, lastUpdate = 1250\<rparr>"
proof -
  let ?e = "\<lparr>provider = utf16 ''A'', event_text = utf16 ''hi'', is_final = True,
             timestamp = 0, latency_ms = 0\<rparr>"
  let ?s = "[utf16 ''B'' \<mapsto> \<lparr>segments = [\<lparr>seg_text = utf16 ''yo'', seg_latency = 7\<rparr>],
                              partialText = utf16 ''hel'', latency = 7, lastUpdate = 900\<rparr>]"
  have n: "utf16 ''B'' \<noteq> provider ?e" by (simp add: utf16_def)
  obtain nxt where r: "handleTranscription 1250 1000 ?s ?e = Inr nxt"
    by (simp add: transcription_on_ordinary_name ordinary_names)
  have a: "nxt (utf16 ''A'') =
     Some \<lparr>segments = [\<lparr>seg_text = utf16 ''hi'', seg_latency = 250\<rparr>],
           partialText = [], latency = 250, lastUpdate = 1250\<rparr>"
    using r n by (auto simp: transcription_on_ordinary_name ordinary_names trim_hi fresh_def)
  have "nxt (utf16 ''B'') = ?s (utf16 ''B'')"
    using transcription_touches_one_provider [OF n, of 1250 1000 ?s, THEN conjunct1] r
    by blast
  then show ?thesis
    using n a r by simp
qed

text \<open>
  C9. An \<open>error\<close> message leaves the state of every provider (and the speech marker)
  as it was and makes its text the session's error, whatever error was shown before.
\<close>

theorem error_event_last_write_wins:
  "states (onmessage now c (Error m)) = states c \<and>
   lastSpeechTimeRef (onmessage now c (Error m)) = lastSpeechTimeRef c \<and>
   error (onmessage now c (Error m)) = Some m \<and>
   error (onmessage now' (onmessage now c (Error m)) (Error m')) = Some m'"
  by simp

text \<open>The theorem at two errors in a row.\<close>

theorem error_event_last_write_wins_witness:
  "error (onmessage 2 (onmessage 1 initial (Error (utf16 ''first''))) (Error (utf16 ''second''))) =
     Some (utf16 ''second'')"
  using error_event_last_write_wins
          [of 1 initial "utf16 ''first''" 2 "utf16 ''second''",
           THEN conjunct2, THEN conjunct2, THEN conjunct2]
  by (simp del: onmessage.simps)


section \<open>The encoder: properties\<close>

lemma clamp_scale_bounds:
  "- 32768 \<le> (let s = max (- 1) (min 1 (x::real)) in if s < 0 then s * 32768 else s * 32767)"
  "(let s = max (- 1) (min 1 (x::real)) in if s < 0 then s * 32768 else s * 32767) \<le> 32767"
  unfolding Let_def by (auto simp: max_def min_def)

lemma truncate_bounds:
  assumes "- 32768 \<le> r" and "r \<le> 32767"
  shows "- 32768 \<le> truncate r" and "truncate r \<le> 32767"
  using assms unfolding truncate_def
  by (auto simp: ceiling_le_iff le_floor_iff floor_le_iff le_ceiling_iff)

lemma sint_int16:
  "- 32768 \<le> k \<Longrightarrow> k \<le> 32767 \<Longrightarrow> sint (word_of_int k :: 16 word) = k"
  by (simp add: sint_sbintrunc' signed_take_bit_int_eq_self)

lemma encode_Num:
  "encode (Num x) =
     word_of_int (truncate
       (let s = max (- 1) (min 1 x) in if s < 0 then s * 32768 else s * 32767))"
  by (auto simp: encode_def Let_def min_def max_def)

lemma sint_encode_Num:
  "sint (encode (Num x)) =
     truncate (let s = max (- 1) (min 1 x) in if s < 0 then s * 32768 else s * 32767)"
  unfolding encode_Num by (rule sint_int16) (rule truncate_bounds [OF clamp_scale_bounds])+

lemma encode_clamped: "encode (Num x) = encode (Num (max (- 1) (min 1 x)))"
  unfolding encode_Num by (simp add: max_def min_def)

lemma encode_special: "encode PInf = 32767" "encode NInf = - 32768" "encode NaN = 0"
  by (simp_all add: encode_def truncate_def)

lemma sint_encode_range: "- 32768 \<le> sint (encode v) \<and> sint (encode v) \<le> 32767"
proof (cases v)
  case (Num x)
  show ?thesis
    unfolding Num sint_encode_Num
    using truncate_bounds [OF clamp_scale_bounds] by simp
qed (simp_all add: encode_special)

lemma loop_fst:
  "length a = length f \<Longrightarrow> fst (worklet_loop f i a m) = take i a @ map encode (drop i f)"
proof (induction f i a m rule: worklet_loop.induct)
  case (1 f i a m)
  show ?case
  proof (cases "i < length f")
    case True
    let ?a = "a[i := encode (f ! i)]"
    have "fst (worklet_loop f i a m) = take (Suc i) ?a @ map encode (drop (Suc i) f)"
      using True 1 by (subst worklet_loop.simps) (simp add: Let_def)
    also have "take (Suc i) ?a = take i a @ [encode (f ! i)]"
      using True 1(2) by (simp add: take_Suc_conv_app_nth)
    finally show ?thesis
      using True by (simp add: Cons_nth_drop_Suc [symmetric])
  next
    case False
    then show ?thesis
      using 1(2) by (subst worklet_loop.simps) simp
  qed
qed

lemma Max_insert_max:
  "finite S \<Longrightarrow> Max (insert (max m v) S) = Max (insert (m::int) (insert v S))"
  by (cases "S = {}") (simp_all add: max.assoc)

lemma loop_snd:
  "length a = length f \<Longrightarrow>
   snd (worklet_loop f i a m) = Max (insert m ((\<lambda>x. \<bar>sint (encode x)\<bar>) ` set (drop i f)))"
proof (induction f i a m rule: worklet_loop.induct)
  case (1 f i a m)
  show ?case
  proof (cases "i < length f")
    case True
    let ?g = "\<lambda>x. \<bar>sint (encode x)\<bar>"
    let ?a = "a[i := encode (f ! i)]"
    let ?m = "if ?g (f ! i) > m then ?g (f ! i) else m"
    have nth: "?a ! i = encode (f ! i)"
      using True 1(2) by simp
    have "snd (worklet_loop f i a m) = snd (worklet_loop f (Suc i) ?a ?m)"
      using True nth by (subst worklet_loop.simps) (simp add: Let_def)
    also have "\<dots> = Max (insert ?m (?g ` set (drop (Suc i) f)))"
      using 1(1) [OF True refl refl] 1(2) unfolding nth by simp
    also have "?m = max m (?g (f ! i))"
      by (simp add: max_def)
    also have "Max (insert (max m (?g (f ! i))) (?g ` set (drop (Suc i) f))) =
               Max (insert m (?g ` set (drop i f)))"
      using True by (simp add: Max_insert_max Cons_nth_drop_Suc [symmetric])
    finally show ?thesis .
  next
    case False
    then show ?thesis
      by (subst worklet_loop.simps) simp
  qed
qed

lemma worklet_onmessage_eq:
  "worklet_onmessage now c block =
     (if Max (insert 0 ((\<lambda>x. \<bar>sint (encode x)\<bar>) ` set block)) > 500
      then c\<lparr>lastSpeechTimeRef := now\<rparr> else c,
      map encode block)"
proof -
  obtain a m where lp: "worklet_loop block 0 (replicate (length block) 0) 0 = (a, m)"
    by (cases "worklet_loop block 0 (replicate (length block) 0) 0")
  have "a = map encode block"
    using loop_fst [of "replicate (length block) 0" block 0 0] lp by simp
  moreover have "m = Max (insert 0 ((\<lambda>x. \<bar>sint (encode x)\<bar>) ` set block))"
    using loop_snd [of "replicate (length block) 0" block 0 0] lp by simp
  ultimately show ?thesis
    by (simp add: worklet_onmessage_def lp)
qed

text \<open>
  C6. The encoder of one sample has a value on every number. On a finite sample the
  stored 16-bit value, read back, is the truncation of the clamped sample times 32768
  when the clamped sample is negative and times 32767 otherwise, with no wrap-around;
  a sample and its clamped value are encoded alike; 1 gives 32767, \<open>-1\<close> gives
  \<open>-32768\<close> and 0 gives 0; the infinities are encoded as 1 and \<open>-1\<close> are, NaN as 0;
  every encoded value lies between \<open>-32768\<close> and 32767; and the frame sent for a block
  is the block's samples encoded one by one.
\<close>

theorem encode_clamps_then_scales:
  "sint (encode (Num x)) =
     truncate (let s = max (- 1) (min 1 x) in if s < 0 then s * 32768 else s * 32767) \<and>
   encode (Num x) = encode (Num (max (- 1) (min 1 x))) \<and>
   sint (encode (Num 1)) = 32767 \<and>
   sint (encode (Num (- 1))) = - 32768 \<and>
   sint (encode (Num 0)) = 0 \<and>
   sint (encode PInf) = 32767 \<and> sint (encode NInf) = - 32768 \<and> sint (encode NaN) = 0 \<and>
   - 32768 \<le> sint (encode v) \<and> sint (encode v) \<le> 32767 \<and>
   snd (worklet_onmessage now c block) = map encode block"
proof -
  have "sint (encode (Num 1)) = 32767" "sint (encode (Num (- 1))) = - 32768"
    "sint (encode (Num 0)) = 0"
    by (simp_all add: sint_encode_Num truncate_def)
  then show ?thesis
    using sint_encode_Num [of x] encode_clamped [of x] sint_encode_range [of v]
    by (simp add: encode_special worklet_onmessage_eq)
qed

text \<open>The theorem at a half, at minus a half and at two samples out of range.\<close>

theorem encode_clamps_then_scales_witness:
  "sint (encode (Num 0.5)) = 16383 \<and> sint (encode (Num (- 0.5))) = - 16384 \<and>
   encode (Num 7) = encode (Num 1) \<and> encode (Num (- 7)) = encode (Num (- 1))"
  using encode_clamps_then_scales [of "0.5", THEN conjunct1]
    encode_clamps_then_scales [of "- 0.5", THEN conjunct1]
    encode_clamps_then_scales [of 7, THEN conjunct2, THEN conjunct1]
    encode_clamps_then_scales [of "- 7", THEN conjunct2, THEN conjunct1]
  by (simp add: truncate_def)


section \<open>The speech tracker: properties\<close>

lemma step_Block_marker:
  "lastSpeechTimeRef (step now c (Block block)) =
     (if Max (insert 0 ((\<lambda>x. \<bar>sint (encode x)\<bar>) ` set block)) > 500
      then now else lastSpeechTimeRef c)"
  by (simp add: worklet_onmessage_eq)

lemma step_Message_marker:
  "lastSpeechTimeRef (step now c (Message m)) = lastSpeechTimeRef c"
  by (cases m) (simp_all split: sum.split)

lemma step_marker_cases:
  "lastSpeechTimeRef (step now c i) = lastSpeechTimeRef c \<or>
   lastSpeechTimeRef (step now c i) = now"
  by (cases i) (simp_all only: step_Block_marker step_Message_marker split: if_split, simp_all)

text \<open>
  C7. After a block the marker is the clock reading if the greatest absolute value of
  the block's encoded samples (0 for an empty block) is above 500, and is what it was
  otherwise: at a greatest value of exactly 500 the marker stays, at 501 it becomes the
  reading.
\<close>

theorem speech_marker_threshold_is_strict:
  "lastSpeechTimeRef (step now c (Block block)) =
     (if Max (insert 0 ((\<lambda>x. \<bar>sint (encode x)\<bar>) ` set block)) > 500
      then now else lastSpeechTimeRef c) \<and>
   (Max (insert 0 ((\<lambda>x. \<bar>sint (encode x)\<bar>) ` set block)) = 500 \<longrightarrow>
      lastSpeechTimeRef (step now c (Block block)) = lastSpeechTimeRef c) \<and>
   (Max (insert 0 ((\<lambda>x. \<bar>sint (encode x)\<bar>) ` set block)) = 501 \<longrightarrow>
      lastSpeechTimeRef (step now c (Block block)) = now)"
  by (simp add: step_Block_marker del: step.simps)

text \<open>
  The theorem at two blocks that hold silence and one sample more, of the encoded
  values \<open>-500\<close> and \<open>-501\<close>.
\<close>

theorem speech_marker_threshold_is_strict_witness:
  "Max (insert 0 ((\<lambda>x. \<bar>sint (encode x)\<bar>) ` set [Num 0, Num (- 500 / 32768)])) = 500 \<and>
   lastSpeechTimeRef (step 1000 initial (Block [Num 0, Num (- 500 / 32768)])) = 0 \<and>
   Max (insert 0 ((\<lambda>x. \<bar>sint (encode x)\<bar>) ` set [Num 0, Num (- 501 / 32768)])) = 501 \<and>
   lastSpeechTimeRef (step 1000 initial (Block [Num 0, Num (- 501 / 32768)])) = 1000"
proof -
  have a: "Max (insert 0 ((\<lambda>x. \<bar>sint (encode x)\<bar>) ` set [Num 0, Num (- 500 / 32768)])) = 500"
    by (simp add: sint_encode_Num truncate_def)
  have b: "Max (insert 0 ((\<lambda>x. \<bar>sint (encode x)\<bar>) ` set [Num 0, Num (- 501 / 32768)])) = 501"
    by (simp add: sint_encode_Num truncate_def)
  show ?thesis
    using a b
      speech_marker_threshold_is_strict
        [of 1000 initial "[Num 0, Num (- 500 / 32768)]",
         THEN conjunct2, THEN conjunct1, rule_format, OF a]
      speech_marker_threshold_is_strict
        [of 1000 initial "[Num 0, Num (- 501 / 32768)]",
         THEN conjunct2, THEN conjunct2, rule_format, OF b]
    by (simp add: initial_def del: step.simps)
qed

lemma trace_markers_sorted:
  "sorted (map fst inputs) \<Longrightarrow> \<forall>t\<in>set (map fst inputs). lastSpeechTimeRef c \<le> t \<Longrightarrow>
   sorted (map lastSpeechTimeRef (trace c inputs))"
proof (induction inputs arbitrary: c)
  case Nil
  then show ?case by simp
next
  case (Cons a inputs)
  obtain now i where a: "a = (now, i)" by (cases a)
  let ?c = "step now c i"
  have le: "lastSpeechTimeRef c \<le> lastSpeechTimeRef ?c"
    using step_marker_cases [of now c i] Cons.prems(2) a by auto
  have up: "lastSpeechTimeRef ?c \<le> now"
    using step_marker_cases [of now c i] Cons.prems(2) a by auto
  have "\<forall>t\<in>set (map fst inputs). lastSpeechTimeRef ?c \<le> t"
    using up Cons.prems(1) a by auto
  then have IH: "sorted (map lastSpeechTimeRef (trace ?c inputs))"
    using Cons.IH [of ?c] Cons.prems(1) a by simp
  have hd: "\<forall>x\<in>set (trace ?c inputs). lastSpeechTimeRef ?c \<le> lastSpeechTimeRef x"
    using IH by (cases inputs) (auto simp del: step.simps)
  show ?case
    using IH hd le unfolding a by (auto simp del: step.simps)
qed

text \<open>
  C8. Along any sequence of callbacks, audio blocks and messages in any order, whose
  clock readings do not decrease, the values the marker takes, from its initial 0 on,
  do not decrease.
\<close>

theorem speech_marker_never_moves_backward:
  assumes "sorted (map fst inputs)"
  shows "sorted (map lastSpeechTimeRef (trace initial inputs))"
  using assms by (intro trace_markers_sorted) (simp_all add: initial_def)

text \<open>The theorem at a loud block, a message, a silent block and a loud block.\<close>

theorem speech_marker_never_moves_backward_witness:
  "sorted (map fst [(1000, Block [Num 1]), (1010, Message Other),
                    (1020, Block [Num 0]), (1030::nat, Block [Num (- 1)])]) \<and>
   sorted (map lastSpeechTimeRef
     (trace initial [(1000, Block [Num 1]), (1010, Message Other),
                     (1020, Block [Num 0]), (1030, Block [Num (- 1)])])) \<and>
   map lastSpeechTimeRef
     (trace initial [(1000, Block [Num 1]), (1010, Message Other),
                     (1020, Block [Num 0]), (1030, Block [Num (- 1)])]) =
     [0, 1000, 1000, 1000, 1030]"
proof -
  let ?I = "[(1000, Block [Num 1]), (1010, Message Other),
             (1020, Block [Num 0]), (1030::nat, Block [Num (- 1)])]"
  have s: "sorted (map fst ?I)" by simp
  have v: "map lastSpeechTimeRef (trace initial ?I) = [0, 1000, 1000, 1000, 1030]"
    by (simp add: worklet_onmessage_eq sint_encode_Num truncate_def initial_def)
  show ?thesis
    using s v speech_marker_never_moves_backward [OF s] by simp
qed

lemma run_quiet:
  "\<forall>(t, i)\<in>set inputs.
     case i of Block b \<Rightarrow> Max (insert 0 ((\<lambda>x. \<bar>sint (encode x)\<bar>) ` set b)) \<le> 500
             | Message m \<Rightarrow> True \<Longrightarrow>
   lastSpeechTimeRef (run c inputs) = lastSpeechTimeRef c"
proof (induction inputs arbitrary: c)
  case Nil
  then show ?case by simp
next
  case (Cons a inputs)
  obtain now i where a: "a = (now, i)" by (cases a)
  have "lastSpeechTimeRef (step now c i) = lastSpeechTimeRef c"
  proof (cases i)
    case (Block b)
    then show ?thesis
      using Cons.prems a by (auto simp: step_Block_marker Max_gr_iff simp del: step.simps)
  next
    case (Message m)
    then show ?thesis by (simp only: step_Message_marker)
  qed
  moreover have "run c (a # inputs) = run (step now c i) inputs"
    unfolding a by simp
  ultimately show ?case
    using Cons.IH [of "step now c i"] Cons.prems by simp
qed

text \<open>
  As long as no audio block has had a greatest encoded absolute value above 500,
  whatever messages came in between, the marker is still its initial 0; a final
  transcription with a text that is not blank, for a provider whose name does not reach
  an inherited property, handled at the clock reading \<open>now\<close> with that marker, then
  appends a segment whose latency is \<open>now\<close> itself, and \<open>now\<close> is the provider's
  latency field as well.
\<close>

lemma latency_without_speech_on_ordinary_name:
  assumes "\<forall>(t, i)\<in>set inputs.
             case i of Block b \<Rightarrow> Max (insert 0 ((\<lambda>x. \<bar>sint (encode x)\<bar>) ` set b)) \<le> 500
                     | Message m \<Rightarrow> True"
    and "is_final event" and "trim (event_text event) \<noteq> []"
    and "prev (provider event) \<noteq> None \<or> provider event \<notin> set Object_prototype_names"
  shows "lastSpeechTimeRef (run initial inputs) = 0 \<and>
         handleTranscription now (lastSpeechTimeRef (run initial inputs)) prev event =
           Inr (prev(provider event \<mapsto>
             \<lparr>segments =
                segments (case prev (provider event) of Some st \<Rightarrow> st | None \<Rightarrow> fresh) @
                  [\<lparr>seg_text = event_text event, seg_latency = int now\<rparr>],
              partialText = [], latency = int now, lastUpdate = now\<rparr>))"
proof -
  have "lastSpeechTimeRef (run initial inputs) = 0"
    using run_quiet [OF assms(1), of initial] by (simp add: initial_def)
  then show ?thesis
    using assms(2,3) transcription_on_ordinary_name [of prev event, OF assms(4)] by simp
qed

text \<open>
  C10. The reducer is to give the segment of latency \<open>now\<close> for every final
  transcription with a text that is not blank that arrives while the marker is still 0. After one
  silent block the marker is 0, and a final \<open>hello\<close> for the provider \<open>constructor\<close>
  at a clock reading of the year 2023 makes the updater throw: no segment is produced.
\<close>

theorem latency_without_speech_on_inherited_name_throws:
  "lastSpeechTimeRef (run initial [(1000, Block [Num 0, Num (- 500 / 32768)])]) = 0 \<and>
   is_final \<lparr>provider = utf16 ''constructor'', event_text = utf16 ''hello'',
             is_final = True, timestamp = 0, latency_ms = 0\<rparr> \<and>
   trim (utf16 ''hello'') \<noteq> [] \<and>
   handleTranscription 1700000000000
     (lastSpeechTimeRef (run initial [(1000, Block [Num 0, Num (- 500 / 32768)])]))
     (states (run initial [(1000, Block [Num 0, Num (- 500 / 32768)])]))
     \<lparr>provider = utf16 ''constructor'', event_text = utf16 ''hello'',
      is_final = True, timestamp = 0, latency_ms = 0\<rparr> = Inl TypeError"
proof -
  let ?I = "[(1000::nat, Block [Num 0, Num (- 500 / 32768)])]"
  have s: "run initial ?I = initial"
    by (simp add: worklet_onmessage_eq sint_encode_Num truncate_def)
  show ?thesis
    unfolding s
    by (simp add: trim_hello handleTranscription_throws get_property_def inherited_names
          initial_def)
qed

end
